theory Spec2Isabelle
  imports Complex_Main "HOL-Library.Log_Nat"
begin

section \<open>Python numbers: unbounded integers and the floats of true division\<close>

text \<open>
  The attributes of the configuration are Python integers (unbounded, \<open>int\<close>). One
  vertex coordinate is computed with the true division \<open>width / 2\<close>, whose result is a
  Python float even when both operands are integers. A finite float is represented by
  the rational number it denotes; every coordinate is therefore an integer or a float.
\<close>

datatype error = ZeroDivisionError | OverflowError

datatype pynum = PyInt int | PyFloat rat

type_synonym point = "pynum \<times> pynum"

text \<open>Two to an integer power, as a rational.\<close>

definition pow2 :: "int \<Rightarrow> rat" where
  "pow2 e = (if 0 \<le> e then 2 ^ nat e else 1 / 2 ^ nat (- e))"

text \<open>
  The binary exponent of the quotient of two non-zero integers: the \<open>e\<close> with
  \<open>2^e \<le> abs (a / b) < 2^(e + 1)\<close>, from the bit lengths of the operands.
\<close>

definition quot_exponent :: "int \<Rightarrow> int \<Rightarrow> int" where
  "quot_exponent a b =
     (let d = bitlen (abs a) - bitlen (abs b)
      in if pow2 d \<le> abs (of_int a / of_int b) then d else d - 1)"

text \<open>Rounding to the nearest integer, ties to the even one.\<close>

definition round_half_even :: "rat \<Rightarrow> int" where
  "round_half_even x =
     (let f = \<lfloor>x\<rfloor>; d = x - of_int f
      in if d < 1 / 2 then f
         else if 1 / 2 < d then f + 1
         else if even f then f else f + 1)"

text \<open>
  Python's \<open>a / b\<close> on integers: \<open>ZeroDivisionError\<close> for a zero divisor, else the
  double nearest to the exact quotient (53 significant bits, least exponent \<open>-1074\<close>,
  ties to even), and \<open>OverflowError\<close> when that rounded value reaches \<open>2^1024\<close>.
  The sign of a zero result is not represented: \<open>0.0\<close> and \<open>-0.0\<close> compare equal.
\<close>

definition py_truediv :: "int \<Rightarrow> int \<Rightarrow> error + rat" where
  "py_truediv a b =
     (if b = 0 then Inl ZeroDivisionError
      else if a = 0 then Inr 0
      else
        let q = of_int a / of_int b;
            u = pow2 (max (quot_exponent a b - 52) (- 1074));
            r = of_int (round_half_even (q / u)) * u
        in if pow2 1024 \<le> abs r then Inl OverflowError else Inr r)"

text \<open>Python's \<open>==\<close> on numbers compares the exact values, across int and float.\<close>

fun py_eq :: "pynum \<Rightarrow> pynum \<Rightarrow> bool" where
  "py_eq (PyInt i) (PyInt j) = (i = j)"
| "py_eq (PyInt i) (PyFloat y) = (of_int i = y)"
| "py_eq (PyFloat x) (PyInt j) = (x = of_int j)"
| "py_eq (PyFloat x) (PyFloat y) = (x = y)"

text \<open>Python's \<open>==\<close> on 2-tuples: componentwise.\<close>

definition point_eq :: "point \<Rightarrow> point \<Rightarrow> bool" where
  "point_eq p q = (py_eq (fst p) (fst q) \<and> py_eq (snd p) (snd q))"

text \<open>Whether a number has an integral value (\<open>960.0\<close> has, \<open>960.5\<close> has not).\<close>

fun is_integral :: "pynum \<Rightarrow> bool" where
  "is_integral (PyInt i) = True"
| "is_integral (PyFloat x) = (of_int \<lfloor>x\<rfloor> = x)"

section \<open>The field configuration\<close>

text \<open>
  The dataclass \<open>FootballFieldConfiguration\<close>: ten integer attributes (inches) and
  three list attributes. The attribute \<open>length\<close> is named \<open>length_attr\<close> here.
\<close>

record FootballFieldConfiguration =
  width :: int
  length_attr :: int
  end_zone_depth :: int
  goal_line_1 :: int
  goal_line_2 :: int
  hash_distance_from_sideline :: int
  hash_length :: int
  yard_line_interval :: int
  fifty_yard_line :: int
  number_distance_from_sideline :: int
  edges :: "(int \<times> int) list"
  labels :: "string list"
  colors :: "string list"

text \<open>The default factories of the three list attributes.\<close>

definition default_edges :: "(int \<times> int) list" where
  "default_edges =
     [(1, 3), (2, 4),
      (1, 2), (3, 4),
      (5, 6), (7, 8),
      (9, 10),
      (1, 5), (2, 6), (3, 7), (4, 8),
      (12, 13), (14, 15), (16, 17),
      (18, 19), (20, 21), (22, 23),
      (24, 25), (26, 27), (28, 29),
      (5, 9), (6, 10), (9, 7), (10, 8)]"

definition default_labels :: "string list" where
  "default_labels =
     [''01'', ''02'', ''03'', ''04'', ''05'', ''06'', ''07'', ''08'', ''09'', ''10'',
      ''11'', ''12'', ''13'', ''14'', ''15'', ''16'', ''17'', ''18'', ''19'', ''20'',
      ''21'', ''22'', ''23'', ''24'', ''25'', ''26'', ''27'', ''28'', ''29'', ''30'',
      ''31'', ''32'']"

definition default_colors :: "string list" where
  "default_colors =
     [''#FF1493'', ''#FF1493'', ''#FF1493'', ''#FF1493'',
      ''#FF1493'', ''#FF1493'', ''#FF1493'', ''#FF1493'',
      ''#00BFFF'', ''#00BFFF'', ''#00BFFF'',
      ''#FF6347'', ''#FF6347'', ''#FF6347'', ''#FF6347'', ''#FF6347'', ''#FF6347'',
      ''#FF6347'', ''#FF6347'', ''#FF6347'', ''#FF6347'', ''#FF6347'', ''#FF6347'',
      ''#FF6347'', ''#FF6347'', ''#FF6347'', ''#FF6347'', ''#FF6347'', ''#FF6347'',
      ''#00BFFF'', ''#00BFFF'', ''#00BFFF'']"

text \<open>
  The generated constructor: every attribute is a keyword parameter with a default, so
  an argument is \<open>None\<close> (not given) or \<open>Some v\<close>. Nothing is validated.
\<close>

definition default_to :: "'a \<Rightarrow> 'a option \<Rightarrow> 'a" where
  "default_to d v = (case v of None \<Rightarrow> d | Some x \<Rightarrow> x)"

definition init ::
  "int option \<Rightarrow> int option \<Rightarrow> int option \<Rightarrow> int option \<Rightarrow> int option \<Rightarrow>
   int option \<Rightarrow> int option \<Rightarrow> int option \<Rightarrow> int option \<Rightarrow> int option \<Rightarrow>
   (int \<times> int) list option \<Rightarrow> string list option \<Rightarrow> string list option \<Rightarrow>
   FootballFieldConfiguration" where
  "init w l ezd g1 g2 hds hl yi fy nds es ls cs =
     \<lparr> width = default_to 1920 w,
       length_attr = default_to 4320 l,
       end_zone_depth = default_to 360 ezd,
       goal_line_1 = default_to 360 g1,
       goal_line_2 = default_to 3960 g2,
       hash_distance_from_sideline = default_to 720 hds,
       hash_length = default_to 24 hl,
       yard_line_interval = default_to 180 yi,
       fifty_yard_line = default_to 2160 fy,
       number_distance_from_sideline = default_to 324 nds,
       edges = default_to default_edges es,
       labels = default_to default_labels ls,
       colors = default_to default_colors cs \<rparr>"

text \<open>Construction with no argument.\<close>

definition default_config :: FootballFieldConfiguration where
  "default_config =
     init None None None None None None None None None None None None None"

text \<open>
  The property \<open>vertices\<close>: a list display of 32 tuples, evaluated in order. Every
  coordinate is an integer expression except the second one of vertex 11, the true
  division \<open>self.width / 2\<close>; an error raised there leaves the property without a value.
\<close>

definition vertices :: "FootballFieldConfiguration \<Rightarrow> error + point list" where
  "vertices self =
     (case py_truediv (width self) 2 of
        Inl e \<Rightarrow> Inl e
      | Inr half \<Rightarrow> Inr
         [(PyInt 0, PyInt 0),
          (PyInt 0, PyInt (width self)),
          (PyInt (length_attr self), PyInt 0),
          (PyInt (length_attr self), PyInt (width self)),
          (PyInt (goal_line_1 self), PyInt 0),
          (PyInt (goal_line_1 self), PyInt (width self)),
          (PyInt (goal_line_2 self), PyInt 0),
          (PyInt (goal_line_2 self), PyInt (width self)),
          (PyInt (fifty_yard_line self), PyInt 0),
          (PyInt (fifty_yard_line self), PyInt (width self)),
          (PyInt (fifty_yard_line self), PyFloat half),
          (PyInt (goal_line_1 self), PyInt (hash_distance_from_sideline self)),
          (PyInt (goal_line_1 self), PyInt (width self - hash_distance_from_sideline self)),
          (PyInt (goal_line_2 self), PyInt (hash_distance_from_sideline self)),
          (PyInt (goal_line_2 self), PyInt (width self - hash_distance_from_sideline self)),
          (PyInt (fifty_yard_line self), PyInt (hash_distance_from_sideline self)),
          (PyInt (fifty_yard_line self), PyInt (width self - hash_distance_from_sideline self)),
          (PyInt (goal_line_1 self + yard_line_interval self * 2),
           PyInt (hash_distance_from_sideline self)),
          (PyInt (goal_line_1 self + yard_line_interval self * 2),
           PyInt (width self - hash_distance_from_sideline self)),
          (PyInt (goal_line_1 self + yard_line_interval self * 4),
           PyInt (hash_distance_from_sideline self)),
          (PyInt (goal_line_1 self + yard_line_interval self * 4),
           PyInt (width self - hash_distance_from_sideline self)),
          (PyInt (goal_line_1 self + yard_line_interval self * 6),
           PyInt (hash_distance_from_sideline self)),
          (PyInt (goal_line_1 self + yard_line_interval self * 6),
           PyInt (width self - hash_distance_from_sideline self)),
          (PyInt (goal_line_2 self - yard_line_interval self * 6),
           PyInt (hash_distance_from_sideline self)),
          (PyInt (goal_line_2 self - yard_line_interval self * 6),
           PyInt (width self - hash_distance_from_sideline self)),
          (PyInt (goal_line_2 self - yard_line_interval self * 4),
           PyInt (hash_distance_from_sideline self)),
          (PyInt (goal_line_2 self - yard_line_interval self * 4),
           PyInt (width self - hash_distance_from_sideline self)),
          (PyInt (goal_line_2 self - yard_line_interval self * 2),
           PyInt (hash_distance_from_sideline self)),
          (PyInt (goal_line_2 self - yard_line_interval self * 2),
           PyInt (width self - hash_distance_from_sideline self)),
          (PyInt (goal_line_1 self + yard_line_interval self * 2),
           PyInt (number_distance_from_sideline self)),
          (PyInt (goal_line_1 self + yard_line_interval self * 2),
           PyInt (width self - number_distance_from_sideline self)),
          (PyInt (fifty_yard_line self), PyInt (number_distance_from_sideline self))])"

section \<open>Properties of the true division by two\<close>

lemma pow2_power_int: "pow2 e = power_int 2 e"
  by (simp add: pow2_def power_int_def field_simps)

lemma pow2_pos: "0 < pow2 e"
  by (simp add: pow2_def)

lemma pow2_add: "pow2 (m + n) = pow2 m * pow2 n"
  by (simp add: pow2_power_int power_int_add)

lemma pow2_nat: "0 \<le> e \<Longrightarrow> pow2 e = 2 ^ nat e"
  by (simp add: pow2_def)

lemma pow2_mono: "m \<le> n \<Longrightarrow> pow2 m \<le> pow2 n"
  by (simp add: pow2_power_int power_int_increasing)

lemma pow2_strict_mono: "m < n \<Longrightarrow> pow2 m < pow2 n"
  by (simp add: pow2_power_int power_int_strict_increasing)

lemma pow2_less_iff: "pow2 m < pow2 n \<longleftrightarrow> m < n"
  using pow2_strict_mono [of m n] pow2_mono [of n m] by (auto simp add: not_less [symmetric])

lemma pow2_le_iff: "pow2 m \<le> pow2 n \<longleftrightarrow> m \<le> n"
  using pow2_strict_mono [of n m] pow2_mono [of m n] by (auto simp add: not_le [symmetric])

lemma bitlen_pow2_bounds:
  assumes "0 < x"
  shows "pow2 (bitlen x - 1) \<le> of_int x" and "of_int x < pow2 (bitlen x)"
proof -
  from assms have b1: "1 \<le> bitlen x" by (auto simp: bitlen_alt_def)
  from bitlen_bounds [OF assms] have lo: "2 ^ nat (bitlen x - 1) \<le> x" and hi: "x < 2 ^ nat (bitlen x)"
    by simp_all
  from lo have "(of_int (2 ^ nat (bitlen x - 1)) :: rat) \<le> of_int x"
    by (simp only: of_int_le_iff)
  with b1 show "pow2 (bitlen x - 1) \<le> of_int x" by (simp add: pow2_nat)
  from hi have "(of_int x :: rat) < of_int (2 ^ nat (bitlen x))"
    by (simp only: of_int_less_iff)
  with b1 show "of_int x < pow2 (bitlen x)" by (simp add: pow2_nat)
qed

lemma quot_exponent_bounds:
  assumes "a \<noteq> 0" "b \<noteq> 0"
  shows "pow2 (quot_exponent a b) \<le> abs (of_int a / of_int b)"
    and "abs (of_int a / of_int b) < pow2 (quot_exponent a b + 1)"
proof -
  let ?la = "bitlen (abs a)" and ?lb = "bitlen (abs b)"
  let ?q = "abs (of_int a / of_int b :: rat)"
  from assms have pa: "0 < abs a" and pb: "0 < abs b" by simp_all
  have qe: "?q = of_int (abs a) / of_int (abs b)" by simp
  have bpos: "(0::rat) < of_int (abs b)" using pb by simp
  have lo: "pow2 (?la - ?lb - 1) < ?q"
  proof -
    have "pow2 (?la - ?lb - 1) * of_int (abs b) < pow2 (?la - ?lb - 1) * pow2 ?lb"
      using bitlen_pow2_bounds(2) [OF pb] pow2_pos by simp
    also have "\<dots> = pow2 (?la - 1)" by (simp add: pow2_add [symmetric])
    also have "\<dots> \<le> of_int (abs a)" by (rule bitlen_pow2_bounds(1) [OF pa])
    finally show ?thesis using bpos by (simp add: qe pos_less_divide_eq)
  qed
  have hi: "?q < pow2 (?la - ?lb + 1)"
  proof -
    have "of_int (abs a) < pow2 ?la" by (rule bitlen_pow2_bounds(2) [OF pa])
    also have "\<dots> = pow2 (?la - ?lb + 1) * pow2 (?lb - 1)" by (simp add: pow2_add [symmetric])
    also have "\<dots> \<le> pow2 (?la - ?lb + 1) * of_int (abs b)"
      using bitlen_pow2_bounds(1) [OF pb] pow2_pos [of "?la - ?lb + 1"] by (simp only: mult_le_cancel_left_pos)
    finally show ?thesis using bpos by (simp add: qe pos_divide_less_eq)
  qed
  show "pow2 (quot_exponent a b) \<le> ?q"
    using lo by (simp add: quot_exponent_def Let_def)
  show "?q < pow2 (quot_exponent a b + 1)"
    using hi by (auto simp add: quot_exponent_def Let_def not_le)
qed

lemma round_half_even_of_int: "round_half_even (of_int n) = n"
  by (simp add: round_half_even_def)

lemma round_half_even_ge: "of_int n \<le> x \<Longrightarrow> n \<le> round_half_even x"
proof -
  assume "of_int n \<le> x"
  then have "n \<le> \<lfloor>x\<rfloor>" by (simp add: le_floor_iff)
  then show ?thesis by (simp add: round_half_even_def Let_def)
qed

lemma round_half_even_le: "x \<le> of_int n \<Longrightarrow> round_half_even x \<le> n"
proof -
  assume h: "x \<le> of_int n"
  have f: "\<lfloor>x\<rfloor> \<le> n" using h by (simp add: floor_le_iff) 
  show ?thesis
  proof (cases "\<lfloor>x\<rfloor> = n")
    case True
    with h have "x = of_int n" using of_int_floor_le [of x] by simp
    then show ?thesis by (simp add: round_half_even_of_int)
  next
    case False
    with f have "\<lfloor>x\<rfloor> + 1 \<le> n" by simp
    then show ?thesis using f by (simp add: round_half_even_def Let_def)
  qed
qed

lemma half_exponent:
  assumes "a \<noteq> 0"
  shows "- 1 \<le> quot_exponent a 2"
proof -
  from assms have "1 \<le> abs a" by simp
  then have "(1::rat) \<le> of_int (abs a)" by (simp only: of_int_1_le_iff)
  then have "pow2 (- 1) \<le> abs (of_int a / of_int 2 :: rat)" by (simp add: pow2_def)
  also have "\<dots> < pow2 (quot_exponent a 2 + 1)"
    using quot_exponent_bounds(2) [of a 2] assms by simp
  finally show ?thesis by (simp add: pow2_less_iff)
qed

lemma py_truediv_2:
  assumes "a \<noteq> 0"
  shows "py_truediv a 2 =
    (let u = pow2 (quot_exponent a 2 - 52);
         r = of_int (round_half_even (of_int a / 2 / u)) * u
     in if pow2 1024 \<le> abs r then Inl OverflowError else Inr r)"
  using assms half_exponent [OF assms] by (simp add: py_truediv_def Let_def max_def)


lemma round_scaled_bound:
  assumes "abs x \<le> of_int n"
  shows "abs (of_int (round_half_even x) :: rat) \<le> of_int n"
proof -
  from assms have "x \<le> of_int n" and "of_int (- n) \<le> x" by simp_all
  then have "round_half_even x \<le> n" and "- n \<le> round_half_even x"
    by (simp_all only: round_half_even_le round_half_even_ge)
  then have "abs (round_half_even x) \<le> n" by simp
  then have "(of_int (abs (round_half_even x)) :: rat) \<le> of_int n" by (simp only: of_int_le_iff)
  then show ?thesis by simp
qed

lemma round_scaled_lower:
  assumes "of_int n \<le> abs x" "0 \<le> n"
  shows "(of_int n :: rat) \<le> abs (of_int (round_half_even x))"
proof (cases "0 \<le> x")
  case True
  with assms have "of_int n \<le> x" by simp
  then have "n \<le> round_half_even x" by (rule round_half_even_ge)
  then have "(of_int n :: rat) \<le> of_int (round_half_even x)" by (simp only: of_int_le_iff)
  then show ?thesis by simp
next
  case False
  with assms have "x \<le> of_int (- n)" by simp
  then have "round_half_even x \<le> - n" by (rule round_half_even_le)
  then have "(of_int (round_half_even x) :: rat) \<le> of_int (- n)" by (simp only: of_int_le_iff)
  then show ?thesis by simp
qed

lemma pow2_mult_eq: "m + n = k \<Longrightarrow> pow2 m * pow2 n = pow2 k"
  using pow2_add [of m n] by simp

lemma pow2_numeral_52: "pow2 52 = of_int (2 ^ 52)"
  by (simp add: pow2_def)

lemma pow2_numeral_53: "pow2 53 = of_int (2 ^ 53)"
  by (simp add: pow2_def)

lemma py_truediv_2_overflow:
  assumes "2 ^ 1025 \<le> abs a"
  shows "py_truediv a 2 = Inl OverflowError"
proof -
  let ?e = "quot_exponent a 2"
  let ?q = "of_int a / 2 :: rat"
  let ?u = "pow2 (?e - 52)"
  let ?R = "of_int (round_half_even (?q / ?u)) :: rat"
  from assms have nz: "a \<noteq> 0" by auto
  from assms have "(of_int (2 ^ 1025) :: rat) \<le> of_int (abs a)" by (simp only: of_int_le_iff)
  then have big: "pow2 1024 \<le> abs ?q" by (simp add: pow2_def)
  have lo: "pow2 ?e \<le> abs ?q" using quot_exponent_bounds(1) [of a 2] nz by simp
  have "abs ?q < pow2 (?e + 1)" using quot_exponent_bounds(2) [of a 2] nz by simp
  with big have "pow2 1024 < pow2 (?e + 1)" by simp
  then have e: "1024 \<le> ?e" by (simp add: pow2_less_iff)
  have upos: "0 < ?u" by (rule pow2_pos)
  have split: "pow2 52 * ?u = pow2 ?e" by (rule pow2_mult_eq) simp
  with lo have "pow2 52 * ?u \<le> abs ?q" by simp
  then have "pow2 52 \<le> abs ?q / ?u" using upos by (simp only: pos_le_divide_eq)
  also have "abs ?q / ?u = abs (?q / ?u)" using upos by (simp only: abs_divide abs_of_pos)
  finally have "of_int (2 ^ 52) \<le> abs (?q / ?u)" by (simp only: pow2_numeral_52)
  then have "(of_int (2 ^ 52) :: rat) \<le> abs ?R"
    by (rule round_scaled_lower) simp
  then have "pow2 52 \<le> abs ?R" by (simp only: pow2_numeral_52)
  then have "pow2 52 * ?u \<le> abs ?R * ?u"
    using upos by (simp only: mult_le_cancel_right_pos)
  then have "pow2 ?e \<le> abs (?R * ?u)"
    using upos by (simp only: split abs_mult abs_of_pos)
  moreover have "pow2 1024 \<le> pow2 ?e" using e by (simp only: pow2_le_iff)
  ultimately have "pow2 1024 \<le> abs (?R * ?u)" by simp
  then show ?thesis unfolding py_truediv_2 [OF nz] Let_def by (simp only: if_True)
qed

lemma py_truediv_2_returns:
  assumes "abs a < 2 ^ 1024"
  shows "\<exists>h. py_truediv a 2 = Inr h"
proof (cases "a = 0")
  case True
  then show ?thesis by (simp add: py_truediv_def)
next
  case nz: False
  let ?e = "quot_exponent a 2"
  let ?q = "of_int a / 2 :: rat"
  let ?u = "pow2 (?e - 52)"
  let ?R = "of_int (round_half_even (?q / ?u)) :: rat"
  from assms have "(of_int (abs a) :: rat) < of_int (2 ^ 1024)" by (simp only: of_int_less_iff)
  then have small: "abs ?q < pow2 1023" by (simp add: pow2_def)
  have "pow2 ?e \<le> abs ?q" using quot_exponent_bounds(1) [of a 2] nz by simp
  with small have "pow2 ?e < pow2 1023" by simp
  then have e: "?e + 1 \<le> 1023" by (simp add: pow2_less_iff)
  have upos: "0 < ?u" by (rule pow2_pos)
  have hi: "abs ?q < pow2 (?e + 1)" using quot_exponent_bounds(2) [of a 2] nz by simp
  have split: "pow2 53 * ?u = pow2 (?e + 1)" by (rule pow2_mult_eq) simp
  with hi have "abs ?q < pow2 53 * ?u" by simp
  then have "abs ?q / ?u < pow2 53" using upos by (simp only: pos_divide_less_eq)
  then have "abs ?q / ?u \<le> pow2 53" by simp
  also have "abs ?q / ?u = abs (?q / ?u)" using upos by (simp only: abs_divide abs_of_pos)
  finally have "abs (?q / ?u) \<le> of_int (2 ^ 53)" by (simp only: pow2_numeral_53)
  then have "abs ?R \<le> of_int (2 ^ 53)"
    by (rule round_scaled_bound)
  then have "abs ?R \<le> pow2 53" by (simp only: pow2_numeral_53)
  then have "abs ?R * ?u \<le> pow2 53 * ?u"
    using upos by (simp only: mult_le_cancel_right_pos)
  also have "\<dots> = pow2 (?e + 1)" by (rule split)
  also have "\<dots> \<le> pow2 1023" using e by (simp only: pow2_le_iff)
  also have "\<dots> < pow2 1024" by (simp add: pow2_less_iff)
  finally have "abs (?R * ?u) < pow2 1024"
    using upos by (simp only: abs_mult abs_of_pos)
  then have "\<not> pow2 1024 \<le> abs (?R * ?u)" by simp
  then show ?thesis unfolding py_truediv_2 [OF nz] Let_def by (simp only: if_False) blast
qed

lemma py_truediv_2_exact:
  assumes "abs a \<le> 2 ^ 53"
  shows "py_truediv a 2 = Inr (of_int a / 2)"
proof (cases "a = 0")
  case True
  then show ?thesis by (simp add: py_truediv_def)
next
  case nz: False
  let ?e = "quot_exponent a 2"
  let ?q = "of_int a / 2 :: rat"
  let ?u = "pow2 (?e - 52)"
  let ?R = "of_int (round_half_even (?q / ?u)) :: rat"
  have upos: "0 < ?u" by (rule pow2_pos)
  from assms have "(of_int (abs a) :: rat) \<le> of_int (2 ^ 53)" by (simp only: of_int_le_iff)
  then have small: "abs ?q \<le> pow2 52" by (simp add: pow2_def)
  have lo: "pow2 ?e \<le> abs ?q" using quot_exponent_bounds(1) [of a 2] nz by simp
  with small have "pow2 ?e \<le> pow2 52" by simp
  then have e: "?e \<le> 52" by (simp only: pow2_le_iff)
  have "\<exists>n. ?q / ?u = of_int n"
  proof (cases "?e = 52")
    case True
    then have u1: "?u = 1" by (simp add: pow2_def)
    from True lo small have "abs ?q = pow2 52" by simp
    then have "abs (of_int a :: rat) = of_int (2 ^ 53)" by (simp add: pow2_def)
    then have "(of_int (abs a) :: rat) = of_int (2 ^ 53)" by simp
    then have "abs a = 2 ^ 53" by (simp only: of_int_eq_iff)
    then have "a = 2 ^ 53 \<or> a = - (2 ^ 53)" by auto
    then have "?q = of_int (2 ^ 52) \<or> ?q = of_int (- (2 ^ 52))" by auto
    then have "\<exists>n. ?q = of_int n" by blast
    then show ?thesis by (simp only: u1 div_by_1)
  next
    case False
    with e have k: "0 \<le> 51 - ?e" by simp
    have "pow2 (52 - ?e) * ?u = pow2 0" by (rule pow2_mult_eq) simp
    then have "pow2 (52 - ?e) * ?u = 1" by (simp add: pow2_def)
    then have inv: "1 / ?u = pow2 (52 - ?e)" using upos by (simp add: field_simps)
    have "pow2 1 * pow2 (51 - ?e) = pow2 (52 - ?e)" by (rule pow2_mult_eq) simp
    then have "pow2 (52 - ?e) = 2 * 2 ^ nat (51 - ?e)" using k by (simp add: pow2_def)
    with inv have inv2: "1 / ?u = 2 * 2 ^ nat (51 - ?e)" by simp
    have "?q / ?u = ?q * (1 / ?u)" by (simp only: times_divide_eq_right mult_1_right)
    also have "\<dots> = ?q * (2 * 2 ^ nat (51 - ?e))" by (simp only: inv2)
    also have "\<dots> = of_int (a * 2 ^ nat (51 - ?e))" by simp
    finally show ?thesis by (rule exI)
  qed
  then obtain n where n: "?q / ?u = of_int n" by blast
  have "?q / ?u * ?u = ?q" using upos by simp
  then have nu: "of_int n * ?u = ?q" by (simp only: n)
  have "?R = of_int n" by (simp only: n round_half_even_of_int)
  with nu have r: "?R * ?u = ?q" by simp
  have "pow2 52 < pow2 1024" by (simp add: pow2_less_iff)
  with small have "\<not> pow2 1024 \<le> abs ?q" by simp
  then show ?thesis unfolding py_truediv_2 [OF nz] Let_def r by (simp only: if_False)
qed

section \<open>Evaluating the vertices\<close>

lemma half_1920: "py_truediv 1920 2 = Inr 960"
  using py_truediv_2_exact [of 1920] by simp

lemma half_1921: "py_truediv 1921 2 = Inr (1921 / 2)"
  using py_truediv_2_exact [of 1921] by simp

text \<open>
  The property returns whenever the width is below \<open>2^1024\<close> in absolute value, and
  raises \<open>OverflowError\<close> from \<open>2^1025\<close> on: the quotient \<open>width / 2\<close> is then too
  large for a float.
\<close>

lemma vertices_returns:
  assumes "abs (width c) < 2 ^ 1024"
  shows "\<exists>vs. vertices c = Inr vs"
  using py_truediv_2_returns [OF assms] by (auto simp add: vertices_def)

lemma vertices_raises:
  assumes "2 ^ 1025 \<le> abs (width c)"
  shows "vertices c = Inl OverflowError"
  by (simp add: vertices_def py_truediv_2_overflow [OF assms])

text \<open>
  While both widths are at most \<open>2^53\<close> in absolute value the quotient is exact, so
  distinct widths give distinct 11th vertices.
\<close>

lemma center_vertex_differs:
  assumes "abs (width c) \<le> 2 ^ 53" and "abs (width c') \<le> 2 ^ 53"
    and "width c \<noteq> width c'"
    and "vertices c = Inr vs" and "vertices c' = Inr vs'"
  shows "\<not> point_eq (vs ! 10) (vs' ! 10)"
  using assms(3-5)
  by (auto simp add: vertices_def point_eq_def py_truediv_2_exact [OF assms(1)]
      py_truediv_2_exact [OF assms(2)])

lemma default_vertices_return:
  "vertices default_config = Inr (projr (vertices default_config))"
  by (simp add: default_config_def init_def default_to_def vertices_def half_1920)

lemma odd_width_vertices_return:
  "vertices (init (Some 1921) None None None None None None None None None None None None)
     = Inr (projr (vertices (init (Some 1921) None None None None None None None None None None None None)))"
  by (simp add: init_def default_to_def vertices_def half_1921)

text \<open>
  What holds of the returned list: it has 32 elements, and its hash and number pairs
  are mirror images across the midline of the field. Both are stated with the return
  itself, for every width below \<open>2^1024\<close> in absolute value.
\<close>

lemma sequence_lengths:
  assumes "c = init w l ezd g1 g2 hds hl yi fy nds None None None"
  shows "length (labels c) = 32 \<and> length (colors c) = 32
     \<and> (\<forall>vs. vertices c = Inr vs \<longrightarrow> length vs = 32)
     \<and> (abs (width c) < 2 ^ 1024 \<longrightarrow> (\<exists>vs. vertices c = Inr vs \<and> length vs = 32))"
proof -
  have len: "length vs = 32" if "vertices c = Inr vs" for vs
    using that by (auto simp add: vertices_def split: sum.splits)
  have "length (labels c) = 32"
    using assms by (simp add: init_def default_to_def default_labels_def)
  moreover have "length (colors c) = 32"
    using assms by (simp add: init_def default_to_def default_colors_def)
  moreover have "\<exists>vs. vertices c = Inr vs \<and> length vs = 32" if "abs (width c) < 2 ^ 1024"
    using vertices_returns [OF that] len by blast
  ultimately show ?thesis using len by blast
qed

lemma hash_pairs_mirrored:
  assumes "vertices c = Inr vs"
  shows "\<forall>i \<in> set [12, 14, 16, 18, 20, 22, 24, 26, 28, 30].
           fst (vs ! (i - 1)) = fst (vs ! i)
           \<and> (\<exists>a b. snd (vs ! (i - 1)) = PyInt a \<and> snd (vs ! i) = PyInt b
                  \<and> a + b = width c)"
  using assms by (auto simp add: vertices_def split: sum.splits)

lemma hash_pairs_mirrored_in_range:
  assumes "abs (width c) < 2 ^ 1024"
  shows "\<exists>vs. vertices c = Inr vs
     \<and> (\<forall>i \<in> set [12, 14, 16, 18, 20, 22, 24, 26, 28, 30].
           fst (vs ! (i - 1)) = fst (vs ! i)
           \<and> (\<exists>a b. snd (vs ! (i - 1)) = PyInt a \<and> snd (vs ! i) = PyInt b
                  \<and> a + b = width c))"
proof -
  from vertices_returns [OF assms] obtain vs where r: "vertices c = Inr vs" by blast
  from hash_pairs_mirrored [OF r] r show ?thesis by blast
qed

section \<open>The claims\<close>

text \<open>
  C1. A configuration constructed with no argument has the ten documented defaults
  (width 1920, length 4320, end zone depth 360, goal lines 360 and 3960, hash distance
  720, hash length 24, yard line interval 180, fifty yard line 2160, number distance
  324). Its \<open>vertices\<close> are returned, as a list of exactly 32 points, whose 1st element
  equals \<open>(0, 0)\<close>, whose 9th equals \<open>(2160, 0)\<close> and whose 11th equals \<open>(2160, 960)\<close>.
  Equality is Python's \<open>==\<close>; the second coordinate of the 11th point is the float
  \<open>960.0\<close>.
\<close>

theorem default_vertices:
  "width default_config = 1920 \<and> length_attr default_config = 4320
   \<and> end_zone_depth default_config = 360 \<and> goal_line_1 default_config = 360
   \<and> goal_line_2 default_config = 3960 \<and> hash_distance_from_sideline default_config = 720
   \<and> hash_length default_config = 24 \<and> yard_line_interval default_config = 180
   \<and> fifty_yard_line default_config = 2160
   \<and> number_distance_from_sideline default_config = 324
   \<and> (\<exists>vs. vertices default_config = Inr vs \<and> length vs = 32
          \<and> point_eq (vs ! 0) (PyInt 0, PyInt 0)
          \<and> point_eq (vs ! 8) (PyInt 2160, PyInt 0)
          \<and> point_eq (vs ! 10) (PyInt 2160, PyInt 960))"
  by (simp add: default_config_def init_def default_to_def vertices_def half_1920 point_eq_def)

text \<open>
  C2. The claim is that every coordinate of every vertex is an integer for every integer
  width. With the odd width 1921 (all other attributes at their defaults) the 11th vertex
  is \<open>(2160, 960.5)\<close>: the true division \<open>self.width / 2\<close> yields a float, whose value
  is not integral. The declared return type of the property is a list of pairs of
  \<open>int\<close>.
\<close>

theorem odd_width_center_vertex:
  "\<exists>vs. vertices (init (Some 1921) None None None None None None None None None None None None)
          = Inr vs
        \<and> vs ! 10 = (PyInt 2160, PyFloat (1921 / 2))
        \<and> \<not> is_integral (snd (vs ! 10))"
proof -
  have "\<lfloor>1921 / 2 :: rat\<rfloor> = 960" by (rule floor_unique) simp_all
  then have "\<not> is_integral (PyFloat (1921 / 2))" by simp
  then show ?thesis
    by (simp add: init_def default_to_def vertices_def half_1921)
qed

text \<open>
  C3. The claim is that for every construction from ten integers the lists returned
  by \<open>vertices\<close>, \<open>labels\<close> and \<open>colors\<close> have length 32. With the width \<open>2^1025\<close>
  (all other attributes at their defaults) \<open>labels\<close> and \<open>colors\<close> have 32 elements,
  but \<open>vertices\<close> returns no list: the true division \<open>self.width / 2\<close> raises
  \<open>OverflowError\<close>.
\<close>

theorem huge_width_sequence_lengths:
  "length (labels (init (Some (2 ^ 1025)) None None None None None None None None None None None None)) = 32
   \<and> length (colors (init (Some (2 ^ 1025)) None None None None None None None None None None None None)) = 32
   \<and> vertices (init (Some (2 ^ 1025)) None None None None None None None None None None None None) = Inl OverflowError
   \<and> \<not> (\<exists>vs. vertices (init (Some (2 ^ 1025)) None None None None None None None None None None None None) = Inr vs \<and> length vs = 32)"
proof -
  let ?c = "init (Some (2 ^ 1025)) None None None None None None None None None None None None"
  have "2 ^ 1025 \<le> abs (width ?c)" by (simp add: init_def default_to_def)
  then have r: "vertices ?c = Inl OverflowError" by (rule vertices_raises)
  have "length (labels ?c) = 32" by (simp add: init_def default_to_def default_labels_def)
  moreover have "length (colors ?c) = 32"
    by (simp add: init_def default_to_def default_colors_def)
  ultimately show ?thesis using r by simp
qed

text \<open>
  C4. Every index pair of the default \<open>edges\<close> has both components between 1 and 32,
  and the pairs \<open>(9, 10)\<close> and \<open>(1, 3)\<close> are among them.
\<close>

theorem default_edges_in_range:
  "(\<forall>(i, j) \<in> set (edges default_config). 1 \<le> i \<and> i \<le> 32 \<and> 1 \<le> j \<and> j \<le> 32)
   \<and> (9, 10) \<in> set (edges default_config)
   \<and> (1, 3) \<in> set (edges default_config)"
  by (simp add: default_config_def init_def default_to_def default_edges_def)

theorem default_edges_in_range_witness:
  "(9, 10) \<in> set (edges default_config) \<and> (1::int) \<le> 9 \<and> (9::int) \<le> 32
   \<and> (1::int) \<le> 10 \<and> (10::int) \<le> 32"
proof -
  from default_edges_in_range
  have m: "(9, 10) \<in> set (edges default_config)"
    and b: "\<forall>(i, j) \<in> set (edges default_config). 1 \<le> i \<and> i \<le> 32 \<and> 1 \<le> j \<and> j \<le> 32"
    by blast+
  from b m have "case (9::int, 10::int) of (i, j) \<Rightarrow> 1 \<le> i \<and> i \<le> 32 \<and> 1 \<le> j \<and> j \<le> 32"
    by (rule bspec)
  with m show ?thesis by simp
qed

text \<open>
  C5, as amended. Two configurations that differ in \<open>width\<close> only, and whose
  \<open>vertices\<close> are returned, have vertex lists that differ at the 1-based positions
  2, 4, 6, 8, 10, 13, 15, 17, 19, 21, 23, 25, 27, 29 and 31 and agree at the positions
  1, 3, 5, 7, 9, 12, 14, 16, 18, 20, 22, 24, 26, 28, 30 and 32. Position 11, the quotient
  \<open>width / 2\<close>, is left out. Points are compared with Python's \<open>==\<close>.
\<close>

theorem width_change_vertices:
  assumes "width c \<noteq> width c'" and "length_attr c = length_attr c'"
    and "end_zone_depth c = end_zone_depth c'" and "goal_line_1 c = goal_line_1 c'"
    and "goal_line_2 c = goal_line_2 c'"
    and "hash_distance_from_sideline c = hash_distance_from_sideline c'"
    and "hash_length c = hash_length c'" and "yard_line_interval c = yard_line_interval c'"
    and "fifty_yard_line c = fifty_yard_line c'"
    and "number_distance_from_sideline c = number_distance_from_sideline c'"
    and "vertices c = Inr vs" and "vertices c' = Inr vs'"
  shows "(\<forall>i \<in> set [2, 4, 6, 8, 10, 13, 15, 17, 19, 21, 23, 25, 27, 29, 31].
            \<not> point_eq (vs ! (i - 1)) (vs' ! (i - 1)))
       \<and> (\<forall>i \<in> set [1, 3, 5, 7, 9, 12, 14, 16, 18, 20, 22, 24, 26, 28, 30, 32].
            point_eq (vs ! (i - 1)) (vs' ! (i - 1)))"
  using assms by (auto simp add: vertices_def point_eq_def split: sum.splits)

theorem width_change_vertices_witness:
  "width default_config \<noteq> width (init (Some 1921) None None None None None None None None None None None None)
   \<and> vertices default_config = Inr (projr (vertices default_config))
   \<and> vertices (init (Some 1921) None None None None None None None None None None None None)
       = Inr (projr (vertices (init (Some 1921) None None None None None None None None None None None None)))
   \<and> \<not> point_eq (projr (vertices default_config) ! (2 - 1))
        (projr (vertices (init (Some 1921) None None None None None None None None None None None None)) ! (2 - 1))
   \<and> point_eq (projr (vertices default_config) ! (14 - 1))
        (projr (vertices (init (Some 1921) None None None None None None None None None None None None)) ! (14 - 1))"
proof -
  let ?c = "default_config"
  let ?c' = "init (Some 1921) None None None None None None None None None None None None"
  have w: "width ?c \<noteq> width ?c'"
    by (simp add: default_config_def init_def default_to_def)
  have same: "length_attr ?c = length_attr ?c'" "end_zone_depth ?c = end_zone_depth ?c'"
    "goal_line_1 ?c = goal_line_1 ?c'" "goal_line_2 ?c = goal_line_2 ?c'"
    "hash_distance_from_sideline ?c = hash_distance_from_sideline ?c'"
    "hash_length ?c = hash_length ?c'" "yard_line_interval ?c = yard_line_interval ?c'"
    "fifty_yard_line ?c = fifty_yard_line ?c'"
    "number_distance_from_sideline ?c = number_distance_from_sideline ?c'"
    by (simp_all add: default_config_def init_def)
  from width_change_vertices [OF w same default_vertices_return odd_width_vertices_return]
  have "\<not> point_eq (projr (vertices ?c) ! (2 - 1)) (projr (vertices ?c') ! (2 - 1))"
    and "point_eq (projr (vertices ?c) ! (14 - 1)) (projr (vertices ?c') ! (14 - 1))"
    by simp_all
  with w default_vertices_return odd_width_vertices_return show ?thesis by blast
qed

text \<open>
  The claim as first stated, with positions 12 to 17 among those that differ and no
  other position beyond 17, fails for the widths 1920 and 1921 (all other attributes at
  their defaults): the 12th vertices (index 11) are equal, and the 19th (index 18) are not.
\<close>

theorem width_change_counterexample:
  "width default_config \<noteq> width (init (Some 1921) None None None None None None None None None None None None)
   \<and> vertices default_config = Inr (projr (vertices default_config))
   \<and> vertices (init (Some 1921) None None None None None None None None None None None None)
       = Inr (projr (vertices (init (Some 1921) None None None None None None None None None None None None)))
   \<and> point_eq (projr (vertices default_config) ! 11)
        (projr (vertices (init (Some 1921) None None None None None None None None None None None None)) ! 11)
   \<and> \<not> point_eq (projr (vertices default_config) ! 18)
        (projr (vertices (init (Some 1921) None None None None None None None None None None None None)) ! 18)"
  by (simp add: default_config_def init_def default_to_def vertices_def half_1920 half_1921
      point_eq_def)

text \<open>
  C6. Whatever the ten integer attributes of two constructions, their \<open>edges\<close>, their
  \<open>labels\<close> and their \<open>colors\<close> are the same.
\<close>

theorem literal_attributes_constant:
  "edges (init w l ezd g1 g2 hds hl yi fy nds None None None)
     = edges (init w' l' ezd' g1' g2' hds' hl' yi' fy' nds' None None None)
   \<and> labels (init w l ezd g1 g2 hds hl yi fy nds None None None)
     = labels (init w' l' ezd' g1' g2' hds' hl' yi' fy' nds' None None None)
   \<and> colors (init w l ezd g1 g2 hds hl yi fy nds None None None)
     = colors (init w' l' ezd' g1' g2' hds' hl' yi' fy' nds' None None None)"
  by (simp add: init_def default_to_def)

text \<open>
  C7. The claim is that construction and the four accessors never raise, whatever the
  integers. Construction validates nothing and always succeeds, but with the width
  \<open>2^1025\<close> (all other attributes at their defaults) \<open>vertices\<close> raises
  \<open>OverflowError\<close>: the true division \<open>self.width / 2\<close> has no float result.
\<close>

theorem huge_width_vertices_raise:
  "vertices (init (Some (2 ^ 1025)) None None None None None None None None None None None None)
     = Inl OverflowError"
  by (rule vertices_raises) (simp add: init_def default_to_def)

text \<open>
  C8. Two configurations with the same values of the ten integer attributes have the
  same \<open>vertices\<close>, whatever else differs between them.
\<close>

theorem vertices_determined_by_scalars:
  assumes "width c = width c'" and "length_attr c = length_attr c'"
    and "end_zone_depth c = end_zone_depth c'" and "goal_line_1 c = goal_line_1 c'"
    and "goal_line_2 c = goal_line_2 c'"
    and "hash_distance_from_sideline c = hash_distance_from_sideline c'"
    and "hash_length c = hash_length c'" and "yard_line_interval c = yard_line_interval c'"
    and "fifty_yard_line c = fifty_yard_line c'"
    and "number_distance_from_sideline c = number_distance_from_sideline c'"
  shows "vertices c = vertices c'"
  unfolding vertices_def assms by (rule refl)

theorem vertices_determined_by_scalars_witness:
  "labels default_config
     \<noteq> labels (init None None None None None None None None None None None (Some [''x'']) None)
   \<and> vertices default_config
     = vertices (init None None None None None None None None None None None (Some [''x'']) None)"
proof -
  let ?c = "default_config"
  let ?c' = "init None None None None None None None None None None None (Some [''x'']) None"
  have same: "width ?c = width ?c'" "length_attr ?c = length_attr ?c'"
    "end_zone_depth ?c = end_zone_depth ?c'"
    "goal_line_1 ?c = goal_line_1 ?c'" "goal_line_2 ?c = goal_line_2 ?c'"
    "hash_distance_from_sideline ?c = hash_distance_from_sideline ?c'"
    "hash_length ?c = hash_length ?c'" "yard_line_interval ?c = yard_line_interval ?c'"
    "fifty_yard_line ?c = fifty_yard_line ?c'"
    "number_distance_from_sideline ?c = number_distance_from_sideline ?c'"
    by (simp_all add: default_config_def init_def)
  have "labels ?c \<noteq> labels ?c'"
    by (simp add: default_config_def init_def default_to_def default_labels_def)
  with vertices_determined_by_scalars [OF same] show ?thesis by simp
qed

text \<open>
  C9. Two constructions that agree on every integer attribute except possibly
  \<open>end_zone_depth\<close> and \<open>hash_length\<close> have the same \<open>vertices\<close>, \<open>edges\<close>,
  \<open>labels\<close> and \<open>colors\<close>: no accessor reads these two attributes.
\<close>

theorem unused_attributes:
  "vertices (init w l ezd g1 g2 hds hl yi fy nds None None None)
     = vertices (init w l ezd' g1 g2 hds hl' yi fy nds None None None)
   \<and> edges (init w l ezd g1 g2 hds hl yi fy nds None None None)
     = edges (init w l ezd' g1 g2 hds hl' yi fy nds None None None)
   \<and> labels (init w l ezd g1 g2 hds hl yi fy nds None None None)
     = labels (init w l ezd' g1 g2 hds hl' yi fy nds None None None)
   \<and> colors (init w l ezd g1 g2 hds hl yi fy nds None None None)
     = colors (init w l ezd' g1 g2 hds hl' yi fy nds None None None)"
  by (simp add: vertices_def init_def cong: sum.case_cong)

text \<open>
  C10. The claim is that for every construction from ten integers the top and bottom
  pairs at the 1-based positions (12, 13), (14, 15), ..., (30, 31) of the vertices are
  mirror images: equal first coordinates, second coordinates with sum \<open>width\<close>. With
  the width \<open>- (2^1025)\<close> (all other attributes at their defaults) there is no vertex
  list to hold such pairs: \<open>vertices\<close> raises \<open>OverflowError\<close> at the true division
  \<open>self.width / 2\<close>, before any later element is built.
\<close>

theorem negative_huge_width_no_hash_pairs:
  "vertices (init (Some (- (2 ^ 1025))) None None None None None None None None None None None None) = Inl OverflowError
   \<and> \<not> (\<exists>vs. vertices (init (Some (- (2 ^ 1025))) None None None None None None None None None None None None) = Inr vs
          \<and> fst (vs ! 11) = fst (vs ! 12))"
proof -
  let ?c = "init (Some (- (2 ^ 1025))) None None None None None None None None None None None None"
  have "2 ^ 1025 \<le> abs (width ?c)" by (simp add: init_def default_to_def)
  then have "vertices ?c = Inl OverflowError" by (rule vertices_raises)
  then show ?thesis by simp
qed

end
